theory Spec2Isabelle
  imports Complex_Main
begin

section \<open>Python values\<close>

text \<open>
  The scripts handle decoded JSON: \<open>None\<close>, booleans, integers, floats, strings,
  lists and dictionaries.  A dictionary is an association list read with
  \<open>map_of\<close>; a decoded JSON object has no repeated key.  Strings are ASCII.
\<close>

datatype json =
    JNull
  | JBool bool
  | JInt int
  | JFloat rat
  | JStr string
  | JArr "json list"
  | JObj "(string \<times> json) list"

type_synonym pydict = "(string \<times> json) list"

text \<open>Truth value of an object, as \<open>if x\<close> and \<open>not x\<close> test it.\<close>

fun truthy :: "json \<Rightarrow> bool" where
  "truthy JNull = False"
| "truthy (JBool b) = b"
| "truthy (JInt i) = (i \<noteq> 0)"
| "truthy (JFloat r) = (r \<noteq> 0)"
| "truthy (JStr s) = (s \<noteq> [])"
| "truthy (JArr xs) = (xs \<noteq> [])"
| "truthy (JObj kvs) = (kvs \<noteq> [])"

text \<open>\<open>d.get(k)\<close> is \<open>None\<close> for a missing key, \<open>d.get(k, v)\<close> is \<open>v\<close>.\<close>

definition dict_get :: "pydict \<Rightarrow> string \<Rightarrow> json" where
  "dict_get d k = (case map_of d k of None \<Rightarrow> JNull | Some v \<Rightarrow> v)"

definition dict_get_default :: "pydict \<Rightarrow> string \<Rightarrow> json \<Rightarrow> json" where
  "dict_get_default d k v0 = (case map_of d k of None \<Rightarrow> v0 | Some v \<Rightarrow> v)"

text \<open>\<open>a or b\<close>.\<close>

definition py_or :: "json \<Rightarrow> json \<Rightarrow> json" where
  "py_or a b = (if truthy a then a else b)"

text \<open>
  \<open>xs[:k]\<close>: a negative \<open>k\<close> counts from the end of the list.
\<close>

definition py_slice_to :: "'a list \<Rightarrow> int \<Rightarrow> 'a list" where
  "py_slice_to xs k =
     (if 0 \<le> k then take (nat k) xs else take (nat (int (length xs) + k)) xs)"

section \<open>HTTP requests\<close>

text \<open>
  What \<open>requests.get\<close> followed by \<open>raise_for_status()\<close> and \<open>json()\<close> can give:
  a timeout, another transport failure, or a response with a status code and a
  body that decodes to JSON or does not.  \<open>raise_for_status\<close> raises for the
  client and server error codes 400 to 599.
\<close>

datatype http_outcome =
    Timeout
  | RequestFailed
  | Response nat "json option"

datatype fetch_error =
    TimeoutError
  | RequestException
  | JSONDecodeError
  | OtherException

definition raise_for_status :: "nat \<Rightarrow> bool" where
  "raise_for_status status = (400 \<le> status \<and> status < 600)"

definition response_json :: "http_outcome \<Rightarrow> fetch_error + json" where
  "response_json r =
     (case r of
        Timeout \<Rightarrow> Inl TimeoutError
      | RequestFailed \<Rightarrow> Inl RequestException
      | Response status body \<Rightarrow>
          if raise_for_status status then Inl RequestException
          else (case body of None \<Rightarrow> Inl JSONDecodeError | Some v \<Rightarrow> Inr v))"

section \<open>Chart fetchers\<close>

definition PLATFORM_NAME_APPLE :: string where
  "PLATFORM_NAME_APPLE = ''Apple''"

definition PLATFORM_NAME_SPOTIFY :: string where
  "PLATFORM_NAME_SPOTIFY = ''Spotify''"

text \<open>
  The loop of \<open>scrape_apple_top_podcasts\<close> over \<open>enumerate(results[:limit])\<close>;
  \<open>i\<close> is the index of the head of the list.  An item that is not a dictionary is
  skipped, and the index still advances.
\<close>

fun apple_records :: "string \<Rightarrow> nat \<Rightarrow> json list \<Rightarrow> pydict list" where
  "apple_records today i [] = []"
| "apple_records today i (JObj pod_data # rest) =
     [(''platform'', JStr PLATFORM_NAME_APPLE),
      (''rank'', JInt (int i + 1)),
      (''title'', dict_get pod_data ''name''),
      (''platform_podcast_id'', dict_get pod_data ''id''),
      (''date'', JStr today)] # apple_records today (Suc i) rest"
| "apple_records today i (_ # rest) = apple_records today (Suc i) rest"

text \<open>
  \<open>scrape_apple_top_podcasts\<close>.  The body of the response is read inside one
  \<open>try\<close> whose handlers all return the empty list; \<open>data.get\<close> on a body that is
  not a dictionary raises AttributeError, caught by the last handler.
\<close>

definition scrape_apple_top_podcasts :: "string \<Rightarrow> http_outcome \<Rightarrow> int \<Rightarrow> pydict list" where
  "scrape_apple_top_podcasts today r limit =
     (case response_json r of
        Inl e \<Rightarrow> []
      | Inr (JObj data) \<Rightarrow>
          (case dict_get data ''feed'' of
             JObj feed_data \<Rightarrow>
               if feed_data = [] then []
               else (case dict_get feed_data ''results'' of
                       JArr results \<Rightarrow>
                         if results = [] then []
                         else apple_records today 0 (py_slice_to results limit)
                     | _ \<Rightarrow> [])
           | _ \<Rightarrow> [])
      | Inr _ \<Rightarrow> [])"

text \<open>
  \<open>str.split(':')[-1]\<close>: the part of the string after its last colon, the whole
  string when it has none.
\<close>

fun split_last :: "char \<Rightarrow> string \<Rightarrow> string \<Rightarrow> string" where
  "split_last sep acc [] = acc"
| "split_last sep acc (c # cs) =
     (if c = sep then split_last sep [] cs else split_last sep (acc @ [c]) cs)"

text \<open>
  The two lines of \<open>scrape_spotify_top100\<close> that compute the podcast id from
  \<open>showUri\<close>.  \<open>':' in show_uri\<close> raises TypeError on a number or a boolean, and
  \<open>show_uri.split\<close> raises AttributeError on a list or dictionary that holds
  \<open>':'\<close>: both leave the loop through the last handler.
\<close>

definition spotify_podcast_id :: "pydict \<Rightarrow> fetch_error + json" where
  "spotify_podcast_id pod_data =
     (let show_uri = dict_get_default pod_data ''showUri'' (JStr '''') in
      if \<not> truthy show_uri then Inr JNull
      else (case show_uri of
              JStr s \<Rightarrow> if CHR '':'' \<in> set s then Inr (JStr (split_last CHR '':'' [] s))
                        else Inr JNull
            | JArr xs \<Rightarrow> if JStr '':'' \<in> set xs then Inl OtherException else Inr JNull
            | JObj kvs \<Rightarrow> if '':'' \<in> set (map fst kvs) then Inl OtherException else Inr JNull
            | _ \<Rightarrow> Inl OtherException))"

text \<open>
  The loop of \<open>scrape_spotify_top100\<close> over \<open>enumerate(items[:100])\<close>.  An
  exception ends it, and the records built so far are dropped.
\<close>

fun spotify_records :: "string \<Rightarrow> nat \<Rightarrow> json list \<Rightarrow> fetch_error + pydict list" where
  "spotify_records today i [] = Inr []"
| "spotify_records today i (JObj pod_data # rest) =
     (case spotify_podcast_id pod_data of
        Inl e \<Rightarrow> Inl e
      | Inr platform_podcast_id \<Rightarrow>
          (case spotify_records today (Suc i) rest of
             Inl e \<Rightarrow> Inl e
           | Inr records \<Rightarrow>
               Inr ([(''platform'', JStr PLATFORM_NAME_SPOTIFY),
                     (''rank'', JInt (int i + 1)),
                     (''title'', dict_get pod_data ''showName''),
                     (''platform_podcast_id'', platform_podcast_id),
                     (''date'', JStr today)] # records)))"
| "spotify_records today i (_ # rest) = spotify_records today (Suc i) rest"

definition scrape_spotify_top100 :: "string \<Rightarrow> http_outcome \<Rightarrow> pydict list" where
  "scrape_spotify_top100 today r =
     (case response_json r of
        Inl e \<Rightarrow> []
      | Inr (JArr items) \<Rightarrow>
          (case spotify_records today 0 (py_slice_to items 100) of
             Inl e \<Rightarrow> []
           | Inr records \<Rightarrow> records)
      | Inr _ \<Rightarrow> [])"

section \<open>Chart store\<close>

text \<open>
  Values as SQLite stores them, and how the \<open>sqlite3\<close> module binds a Python
  value to a statement parameter: a list or a dictionary is refused with an
  error of the \<open>sqlite3.Error\<close> family, an integer outside 64 bits with
  OverflowError.  The conversions of column affinity are not modelled: the
  properties below are about records that hold text in text columns and integers
  in integer columns.
\<close>

datatype sqlv = SNull | SInt int | SReal rat | SText string

datatype py_error = SqliteError | OverflowError | KeyError | TypeError | AttributeError

definition in_int64 :: "int \<Rightarrow> bool" where
  "in_int64 i = (- (2 ^ 63) \<le> i \<and> i < 2 ^ 63)"

definition bind_param :: "json \<Rightarrow> py_error + sqlv" where
  "bind_param v =
     (case v of
        JNull \<Rightarrow> Inr SNull
      | JBool b \<Rightarrow> Inr (SInt (if b then 1 else 0))
      | JInt i \<Rightarrow> if in_int64 i then Inr (SInt i) else Inl OverflowError
      | JFloat x \<Rightarrow> Inr (SReal x)
      | JStr s \<Rightarrow> Inr (SText s)
      | JArr xs \<Rightarrow> Inl SqliteError
      | JObj kvs \<Rightarrow> Inl SqliteError)"

text \<open>
  The table \<open>Top100Lists\<close>: rows in insertion order, and the counter behind
  \<open>AUTOINCREMENT\<close>.
\<close>

record top100_row =
  row_id :: nat
  col_platform :: sqlv
  col_rank :: sqlv
  col_title :: sqlv
  col_platform_podcast_id :: sqlv
  col_date :: sqlv

record top100_table =
  rows :: "top100_row list"
  seq :: nat

definition same_key :: "sqlv \<Rightarrow> sqlv \<Rightarrow> sqlv \<Rightarrow> top100_row \<Rightarrow> bool" where
  "same_key p r d row = (col_platform row = p \<and> col_rank row = r \<and> col_date row = d)"

text \<open>
  \<open>INSERT OR IGNORE INTO Top100Lists\<close>, with the number of rows it changed
  (\<open>cursor.rowcount\<close>).  A row that breaks \<open>NOT NULL\<close> or
  \<open>UNIQUE(platform, rank, date)\<close> is left out.
\<close>

definition insert_or_ignore_top100 ::
  "top100_table \<Rightarrow> sqlv \<times> sqlv \<times> sqlv \<times> sqlv \<times> sqlv \<Rightarrow> top100_table \<times> nat" where
  "insert_or_ignore_top100 tbl params =
     (case params of (p, r, t, i, d) \<Rightarrow>
        if p = SNull \<or> r = SNull \<or> d = SNull then (tbl, 0)
        else if list_ex (same_key p r d) (rows tbl) then (tbl, 0)
        else (tbl\<lparr>rows := rows tbl @
                     [\<lparr>row_id = Suc (seq tbl), col_platform = p, col_rank = r, col_title = t,
                       col_platform_podcast_id = i, col_date = d\<rparr>],
                  seq := Suc (seq tbl)\<rparr>, 1))"

text \<open>
  The parameter tuple of the insert: \<open>(r["platform"], r["rank"], r.get("title"),
  r.get("platform_podcast_id"), r["date"])\<close>, bound from left to right.
\<close>

definition bind_record :: "pydict \<Rightarrow> py_error + sqlv \<times> sqlv \<times> sqlv \<times> sqlv \<times> sqlv" where
  "bind_record r =
     (case bind_param (dict_get r ''platform'') of Inl e \<Rightarrow> Inl e | Inr p \<Rightarrow>
      case bind_param (dict_get r ''rank'') of Inl e \<Rightarrow> Inl e | Inr k \<Rightarrow>
      case bind_param (dict_get r ''title'') of Inl e \<Rightarrow> Inl e | Inr t \<Rightarrow>
      case bind_param (dict_get r ''platform_podcast_id'') of Inl e \<Rightarrow> Inl e | Inr i \<Rightarrow>
      case bind_param (dict_get r ''date'') of Inl e \<Rightarrow> Inl e | Inr d \<Rightarrow>
      Inr (p, k, t, i, d))"

definition has_required_keys :: "pydict \<Rightarrow> bool" where
  "has_required_keys r =
     list_all (\<lambda>key. map_of r key \<noteq> None) [''platform'', ''rank'', ''date'']"

text \<open>
  The loop of \<open>save_chart_data_to_db\<close> over the records, with its two counters.
  A record without a required key is skipped.  An error of the \<open>sqlite3.Error\<close>
  family is logged and the loop goes on, counting nothing; any other exception
  leaves the function.
\<close>

fun save_records ::
  "top100_table \<Rightarrow> nat \<Rightarrow> nat \<Rightarrow> pydict list \<Rightarrow> py_error + top100_table \<times> nat \<times> nat" where
  "save_records tbl insert_count ignore_count [] = Inr (tbl, insert_count, ignore_count)"
| "save_records tbl insert_count ignore_count (r # rest) =
     (if \<not> has_required_keys r then save_records tbl insert_count ignore_count rest
      else (case bind_record r of
              Inl SqliteError \<Rightarrow> save_records tbl insert_count ignore_count rest
            | Inl e \<Rightarrow> Inl e
            | Inr params \<Rightarrow>
                (case insert_or_ignore_top100 tbl params of (tbl', rowcount) \<Rightarrow>
                   if rowcount > 0
                   then save_records tbl' (insert_count + 1) ignore_count rest
                   else save_records tbl' insert_count (ignore_count + 1) rest)))"

text \<open>
  \<open>save_chart_data_to_db\<close>.  The environment says whether the directory of the
  database exists and whether the connection opens.  The result is the table as
  committed and the two counts of the final log line, when that line is written.
  An exception that leaves the function closes the connection without a commit,
  so the table stays as it was.  \<open>records[0]['platform']\<close> raises KeyError when
  the first record has no platform.
\<close>

record store_env =
  dir_exists :: bool
  connect_ok :: bool

definition save_chart_data_to_db ::
  "store_env \<Rightarrow> top100_table \<Rightarrow> pydict list \<Rightarrow> py_error + top100_table \<times> (nat \<times> nat) option" where
  "save_chart_data_to_db env tbl records =
     (if records = [] then Inr (tbl, None)
      else if \<not> dir_exists env then Inr (tbl, None)
      else if \<not> connect_ok env then Inr (tbl, None)
      else if map_of (hd records) ''platform'' = None then Inl KeyError
      else (case save_records tbl 0 0 records of
              Inl e \<Rightarrow> Inl e
            | Inr (tbl', insert_count, ignore_count) \<Rightarrow>
                Inr (tbl', Some (insert_count, ignore_count))))"

section \<open>Episode statistics\<close>

text \<open>
  \<open>int(a / b)\<close> for a positive \<open>b\<close>: the quotient truncated towards zero.  Python
  computes the quotient as a float first; the float quotient of two integers is
  correctly rounded, and its truncation is the integer below the exact quotient
  as long as \<open>a + b\<close> stays under \<open>2 ^ 53\<close>, which durations in seconds do.
\<close>

definition py_int_truediv :: "int \<Rightarrow> int \<Rightarrow> int" where
  "py_int_truediv a b = (if 0 \<le> a then a div b else - ((- a) div b))"

text \<open>
  The loop of \<open>get_latest_episode_info\<close> over the episodes, with its two counters.
  \<open>isinstance(duration, int)\<close> holds for integers and for booleans, and \<open>True\<close>
  counts as 1.  \<open>episode.get\<close> on an item that is not a dictionary raises
  AttributeError.
\<close>

fun sum_durations :: "int \<Rightarrow> int \<Rightarrow> json list \<Rightarrow> fetch_error + int \<times> int" where
  "sum_durations total_duration valid_episode_count [] =
     Inr (total_duration, valid_episode_count)"
| "sum_durations total_duration valid_episode_count (JObj episode # rest) =
     (case dict_get episode ''duration'' of
        JInt duration \<Rightarrow>
          if duration > 0
          then sum_durations (total_duration + duration) (valid_episode_count + 1) rest
          else sum_durations total_duration valid_episode_count rest
      | JBool duration \<Rightarrow>
          if duration
          then sum_durations (total_duration + 1) (valid_episode_count + 1) rest
          else sum_durations total_duration valid_episode_count rest
      | _ \<Rightarrow> sum_durations total_duration valid_episode_count rest)"
| "sum_durations total_duration valid_episode_count (_ # rest) = Inl OtherException"

text \<open>
  \<open>get_latest_episode_info\<close> returns the pair \<open>(average_duration,
  latest_episode_title)\<close>; \<open>None\<close> for the average is \<open>None\<close> here, and the title
  is the decoded value, \<open>JNull\<close> for \<open>None\<close>.  Every exception inside the \<open>try\<close>
  ends in \<open>return None, None\<close>.
\<close>

definition get_latest_episode_info :: "http_outcome \<Rightarrow> int option \<times> json" where
  "get_latest_episode_info r =
     (case response_json r of
        Inl e \<Rightarrow> (None, JNull)
      | Inr (JObj data) \<Rightarrow>
          (case dict_get_default data ''items'' (JArr []) of
             JArr items \<Rightarrow>
               (case items of
                  [] \<Rightarrow> (None, JNull)
                | JObj first # _ \<Rightarrow>
                    (case sum_durations 0 0 items of
                       Inl e \<Rightarrow> (None, JNull)
                     | Inr (total_duration, valid_episode_count) \<Rightarrow>
                         (if valid_episode_count > 0
                          then Some (py_int_truediv total_duration valid_episode_count)
                          else None,
                          dict_get first ''title''))
                | _ # _ \<Rightarrow> (None, JNull))
           | _ \<Rightarrow> (None, JNull))
      | Inr _ \<Rightarrow> (None, JNull))"

section \<open>Title resolver\<close>

definition SEARCH_ACCEPTANCE_THRESHOLD :: rat where
  "SEARCH_ACCEPTANCE_THRESHOLD = 9 / 10"

text \<open>
  \<open>str.strip()\<close> and \<open>str.lower()\<close> on ASCII strings.  The whitespace of
  \<open>strip\<close> is the space, the characters 9 to 13 and the separators 28 to 31.
\<close>

definition py_isspace :: "char \<Rightarrow> bool" where
  "py_isspace c =
     (c \<in> set [CHR '' '', CHR 0x09, CHR 0x0A, CHR 0x0B, CHR 0x0C, CHR 0x0D,
                CHR 0x1C, CHR 0x1D, CHR 0x1E, CHR 0x1F])"

definition py_strip :: "string \<Rightarrow> string" where
  "py_strip s = rev (dropWhile py_isspace (rev (dropWhile py_isspace s)))"

definition py_lower_char :: "char \<Rightarrow> char" where
  "py_lower_char c =
     (case map_of (zip ''ABCDEFGHIJKLMNOPQRSTUVWXYZ'' ''abcdefghijklmnopqrstuvwxyz'') c of
        Some l \<Rightarrow> l
      | None \<Rightarrow> c)"

definition py_lower :: "string \<Rightarrow> string" where
  "py_lower s = map py_lower_char s"

text \<open>
  The title a candidate is compared by.  \<open>search_byterm\<close> reads
  \<open>res.get("title_original", "") or res.get("title", "")\<close>, \<open>search_bytitle\<close>
  reads \<open>feed.get("title", "")\<close>.
\<close>

definition byterm_candidate_title :: "pydict \<Rightarrow> json" where
  "byterm_candidate_title res =
     py_or (dict_get_default res ''title_original'' (JStr ''''))
           (dict_get_default res ''title'' (JStr ''''))"

definition bytitle_candidate_title :: "pydict \<Rightarrow> json" where
  "bytitle_candidate_title feed = dict_get_default feed ''title'' (JStr '''')"

text \<open>
  The \<open>for\<close> loop of \<open>search_byterm\<close>.  The state is the pair \<open>(best_match,
  best_ratio)\<close>; the result is the state when the loop ends, by exhaustion or by
  \<open>break\<close>.  \<open>ratio\<close> stands for \<open>difflib.SequenceMatcher(None, a, b).ratio()\<close>,
  which is library code: the loop is modelled for any such function.  A
  candidate without a title is skipped.  \<open>res.get\<close> on a candidate that is not a
  dictionary and \<open>strip\<close> on a title that is not a string raise AttributeError.
\<close>

fun byterm_scan ::
  "(string \<Rightarrow> string \<Rightarrow> rat) \<Rightarrow> string \<Rightarrow> pydict option \<times> rat \<Rightarrow> json list \<Rightarrow>
   fetch_error + pydict option \<times> rat" where
  "byterm_scan ratio query_lower_stripped (best_match, best_ratio) [] =
     Inr (best_match, best_ratio)"
| "byterm_scan ratio query_lower_stripped (best_match, best_ratio) (JObj res # rest) =
     (let candidate_title = byterm_candidate_title res in
      if \<not> truthy candidate_title
      then byterm_scan ratio query_lower_stripped (best_match, best_ratio) rest
      else (case candidate_title of
              JStr t \<Rightarrow>
                (let candidate_lower_stripped = py_lower (py_strip t) in
                 if query_lower_stripped = candidate_lower_stripped then Inr (Some res, 1)
                 else if ratio query_lower_stripped candidate_lower_stripped > best_ratio
                 then byterm_scan ratio query_lower_stripped
                        (Some res, ratio query_lower_stripped candidate_lower_stripped) rest
                 else byterm_scan ratio query_lower_stripped (best_match, best_ratio) rest)
            | _ \<Rightarrow> Inl OtherException))"
| "byterm_scan ratio query_lower_stripped (best_match, best_ratio) (_ # rest) =
     Inl OtherException"

text \<open>The \<open>for\<close> loop of \<open>search_bytitle\<close>, written out in the source a second time.\<close>

fun bytitle_scan ::
  "(string \<Rightarrow> string \<Rightarrow> rat) \<Rightarrow> string \<Rightarrow> pydict option \<times> rat \<Rightarrow> json list \<Rightarrow>
   fetch_error + pydict option \<times> rat" where
  "bytitle_scan ratio query_lower_stripped (best_match, best_ratio) [] =
     Inr (best_match, best_ratio)"
| "bytitle_scan ratio query_lower_stripped (best_match, best_ratio) (JObj feed # rest) =
     (let candidate_title = bytitle_candidate_title feed in
      if \<not> truthy candidate_title
      then bytitle_scan ratio query_lower_stripped (best_match, best_ratio) rest
      else (case candidate_title of
              JStr t \<Rightarrow>
                (let candidate_lower_stripped = py_lower (py_strip t) in
                 if query_lower_stripped = candidate_lower_stripped then Inr (Some feed, 1)
                 else if ratio query_lower_stripped candidate_lower_stripped > best_ratio
                 then bytitle_scan ratio query_lower_stripped
                        (Some feed, ratio query_lower_stripped candidate_lower_stripped) rest
                 else bytitle_scan ratio query_lower_stripped (best_match, best_ratio) rest)
            | _ \<Rightarrow> Inl OtherException))"
| "bytitle_scan ratio query_lower_stripped (best_match, best_ratio) (_ # rest) =
     Inl OtherException"

text \<open>
  The test after the loop: \<open>if best_match and best_ratio >= SEARCH_ACCEPTANCE_THRESHOLD\<close>.
\<close>

definition accept_best :: "pydict option \<times> rat \<Rightarrow> pydict option" where
  "accept_best st =
     (case st of
        (Some best_match, best_ratio) \<Rightarrow>
          if truthy (JObj best_match) \<and> best_ratio \<ge> SEARCH_ACCEPTANCE_THRESHOLD
          then Some best_match else None
      | (None, best_ratio) \<Rightarrow> None)"

text \<open>
  \<open>search_byterm\<close> and \<open>search_bytitle\<close>, given what the request returns.  The
  result is the accepted candidate, or \<open>None\<close>; every exception ends in
  \<open>return None\<close>.  Iterating over a \<open>results\<close> value that is not a list raises
  or yields items that are not dictionaries.
\<close>

definition search_byterm ::
  "(string \<Rightarrow> string \<Rightarrow> rat) \<Rightarrow> string \<Rightarrow> http_outcome \<Rightarrow> pydict option" where
  "search_byterm ratio query r =
     (case response_json r of
        Inl e \<Rightarrow> None
      | Inr (JObj data) \<Rightarrow>
          (let results = py_or (dict_get data ''feeds'')
                               (dict_get_default data ''results'' (JArr [])) in
           if truthy results
           then (case results of
                   JArr candidates \<Rightarrow>
                     (case byterm_scan ratio (py_lower (py_strip query)) (None, 0) candidates of
                        Inl e \<Rightarrow> None
                      | Inr st \<Rightarrow> accept_best st)
                 | _ \<Rightarrow> None)
           else None)
      | Inr _ \<Rightarrow> None)"

definition search_bytitle ::
  "(string \<Rightarrow> string \<Rightarrow> rat) \<Rightarrow> string \<Rightarrow> http_outcome \<Rightarrow> pydict option" where
  "search_bytitle ratio query r =
     (case response_json r of
        Inl e \<Rightarrow> None
      | Inr (JObj data) \<Rightarrow>
          (let feeds = dict_get_default data ''feeds'' (JArr []) in
           if truthy feeds
           then (case feeds of
                   JArr candidates \<Rightarrow>
                     (case bytitle_scan ratio (py_lower (py_strip query)) (None, 0) candidates of
                        Inl e \<Rightarrow> None
                      | Inr st \<Rightarrow> accept_best st)
                 | _ \<Rightarrow> None)
           else None)
      | Inr _ \<Rightarrow> None)"

text \<open>
  \<open>search_podcast_combined\<close>.  \<open>r_term\<close> is what the by-term request returns and
  \<open>r_title\<close> what the by-title request returns; the second is only made when
  the first search gives nothing.
\<close>

definition search_podcast_combined ::
  "(string \<Rightarrow> string \<Rightarrow> rat) \<Rightarrow> string \<Rightarrow> http_outcome \<Rightarrow> http_outcome \<Rightarrow> pydict option" where
  "search_podcast_combined ratio query r_term r_title =
     (let result = (case search_byterm ratio query r_term of
                      Some res \<Rightarrow> if truthy (JObj res) then Some res
                                  else search_bytitle ratio query r_title
                    | None \<Rightarrow> search_bytitle ratio query r_title) in
      case result of
        Some res \<Rightarrow> if truthy (JObj res) then Some res else None
      | None \<Rightarrow> None)"

section \<open>Detail fetcher\<close>

text \<open>
  \<open>get_full_podcast_details_by_feed_id\<close> and
  \<open>get_full_podcast_details_by_feed_url\<close>, given what the request returns: the
  value under \<open>feed\<close> when it is true, else \<open>None\<close>.  The second one slices
  \<open>feed_url[:50]\<close> for its log line before the \<open>try\<close>, which raises on a
  value that is neither a string nor a list.
\<close>

definition get_full_podcast_details_by_feed_id :: "http_outcome \<Rightarrow> json option" where
  "get_full_podcast_details_by_feed_id r =
     (case response_json r of
        Inl e \<Rightarrow> None
      | Inr (JObj data) \<Rightarrow>
          if truthy (dict_get data ''feed'') then Some (dict_get data ''feed'') else None
      | Inr _ \<Rightarrow> None)"

definition get_full_podcast_details_by_feed_url ::
  "json \<Rightarrow> http_outcome \<Rightarrow> py_error + json option" where
  "get_full_podcast_details_by_feed_url feed_url r =
     (case feed_url of
        JStr s \<Rightarrow> Inr (get_full_podcast_details_by_feed_id r)
      | JArr xs \<Rightarrow> Inr (get_full_podcast_details_by_feed_id r)
      | _ \<Rightarrow> Inl TypeError)"

section \<open>Detail store\<close>

text \<open>
  The tables \<open>Podcasts\<close> (by its primary key, with the ten other columns in
  the order of the schema), \<open>Categories\<close> and \<open>PodcastCategories\<close> (rows in
  insertion order).
\<close>

record detail_db =
  Podcasts :: "int \<rightharpoonup> sqlv list"
  Categories :: "(int \<times> sqlv) list"
  PodcastCategories :: "(int \<times> int) list"

text \<open>
  The statements of the writer.  \<open>INSERT OR REPLACE INTO Podcasts\<close> deletes
  the row it replaces, and with it, by \<open>ON DELETE CASCADE\<close>, the links of that
  podcast.  \<open>INSERT OR IGNORE INTO Categories\<close> leaves out a row whose id or
  name is taken.  \<open>INSERT OR IGNORE INTO PodcastCategories\<close> leaves out a link
  that exists; the foreign keys are not covered by \<open>OR IGNORE\<close>, so a link to a
  podcast or category without a row fails.
\<close>

definition upsert_podcast :: "detail_db \<Rightarrow> int \<Rightarrow> sqlv list \<Rightarrow> detail_db" where
  "upsert_podcast db podcast_id row =
     db\<lparr>Podcasts := (Podcasts db)(podcast_id \<mapsto> row),
        PodcastCategories :=
          (if Podcasts db podcast_id = None then PodcastCategories db
           else filter (\<lambda>link. fst link \<noteq> podcast_id) (PodcastCategories db))\<rparr>"

definition delete_links :: "detail_db \<Rightarrow> int \<Rightarrow> detail_db" where
  "delete_links db podcast_id =
     db\<lparr>PodcastCategories := filter (\<lambda>link. fst link \<noteq> podcast_id) (PodcastCategories db)\<rparr>"

definition insert_category :: "detail_db \<Rightarrow> int \<Rightarrow> sqlv \<Rightarrow> detail_db" where
  "insert_category db category_id category_name =
     (if category_name = SNull \<or> category_id \<in> fst ` set (Categories db)
         \<or> category_name \<in> snd ` set (Categories db)
      then db
      else db\<lparr>Categories := Categories db @ [(category_id, category_name)]\<rparr>)"

definition insert_link :: "detail_db \<Rightarrow> int \<Rightarrow> int \<Rightarrow> py_error + detail_db" where
  "insert_link db podcast_id category_id =
     (if (podcast_id, category_id) \<in> set (PodcastCategories db) then Inr db
      else if Podcasts db podcast_id = None \<or> category_id \<notin> fst ` set (Categories db)
      then Inl SqliteError
      else Inr (db\<lparr>PodcastCategories := PodcastCategories db @ [(podcast_id, category_id)]\<rparr>))"

text \<open>
  The storage engine can also fail on its own (a full disk, a lock).  \<open>fails\<close>
  says which statements do; a statement that fails raises an error of the
  \<open>sqlite3.Error\<close> family and changes nothing.
\<close>

datatype statement =
    UpsertPodcast int
  | DeleteLinks int
  | InsertCategory int sqlv
  | InsertLink int int
  | Commit

text \<open>
  \<open>int(cat_id_str)\<close>: the string is trimmed, may start with a sign, and holds
  decimal digits, with single underscores allowed between digits.  Anything else
  raises ValueError, \<open>None\<close> here.
\<close>

definition digit_value :: "char \<Rightarrow> int option" where
  "digit_value c =
     map_of [(CHR ''0'', 0), (CHR ''1'', 1), (CHR ''2'', 2), (CHR ''3'', 3), (CHR ''4'', 4),
             (CHR ''5'', 5), (CHR ''6'', 6), (CHR ''7'', 7), (CHR ''8'', 8), (CHR ''9'', 9)] c"

fun parse_digits :: "int \<Rightarrow> bool \<Rightarrow> string \<Rightarrow> int option" where
  "parse_digits acc after_digit [] = (if after_digit then Some acc else None)"
| "parse_digits acc after_digit (c # cs) =
     (if c = CHR ''_''
      then (if after_digit \<and> cs \<noteq> [] then parse_digits acc False cs else None)
      else (case digit_value c of
              None \<Rightarrow> None
            | Some d \<Rightarrow> parse_digits (10 * acc + d) True cs))"

definition py_int :: "string \<Rightarrow> int option" where
  "py_int s =
     (case py_strip s of
        [] \<Rightarrow> None
      | c # cs \<Rightarrow>
          if c = CHR ''+'' then parse_digits 0 False cs
          else if c = CHR ''-'' then map_option uminus (parse_digits 0 False cs)
          else parse_digits 0 False (c # cs))"

text \<open>
  The two statements run for one category, with their parameters bound.
\<close>

definition execute_insert_category ::
  "(statement \<Rightarrow> bool) \<Rightarrow> detail_db \<Rightarrow> int \<Rightarrow> json \<Rightarrow> py_error + detail_db" where
  "execute_insert_category fails db cat_id cat_name =
     (if \<not> in_int64 cat_id then Inl OverflowError
      else (case bind_param cat_name of
              Inl e \<Rightarrow> Inl e
            | Inr name \<Rightarrow>
                if fails (InsertCategory cat_id name) then Inl SqliteError
                else Inr (insert_category db cat_id name)))"

definition execute_insert_link ::
  "(statement \<Rightarrow> bool) \<Rightarrow> detail_db \<Rightarrow> int \<Rightarrow> int \<Rightarrow> py_error + detail_db" where
  "execute_insert_link fails db feed_id cat_id =
     (if fails (InsertLink feed_id cat_id) then Inl SqliteError
      else insert_link db feed_id cat_id)"

text \<open>
  The loop over \<open>categories_dict.items()\<close>.  The state is the database inside
  the open transaction and the counter \<open>category_link_errors\<close>; the third
  component of the result is the exception that leaves the loop, if one does.
  ValueError and the \<open>sqlite3.Error\<close> family are caught inside the loop.
\<close>

fun insert_categories ::
  "(statement \<Rightarrow> bool) \<Rightarrow> int \<Rightarrow> detail_db \<Rightarrow> nat \<Rightarrow> (string \<times> json) list \<Rightarrow>
   detail_db \<times> nat \<times> py_error option" where
  "insert_categories fails feed_id db category_link_errors [] =
     (db, category_link_errors, None)"
| "insert_categories fails feed_id db category_link_errors ((cat_id_str, cat_name) # rest) =
     (if cat_id_str = [] \<or> \<not> truthy cat_name
      then insert_categories fails feed_id db category_link_errors rest
      else (case py_int cat_id_str of
              None \<Rightarrow> insert_categories fails feed_id db (category_link_errors + 1) rest
            | Some cat_id \<Rightarrow>
                (case execute_insert_category fails db cat_id cat_name of
                   Inl SqliteError \<Rightarrow>
                     insert_categories fails feed_id db (category_link_errors + 1) rest
                 | Inl e \<Rightarrow> (db, category_link_errors, Some e)
                 | Inr db1 \<Rightarrow>
                     (case execute_insert_link fails db1 feed_id cat_id of
                        Inl SqliteError \<Rightarrow>
                          insert_categories fails feed_id db1 (category_link_errors + 1) rest
                      | Inl e \<Rightarrow> (db1, category_link_errors, Some e)
                      | Inr db2 \<Rightarrow>
                          insert_categories fails feed_id db2 category_link_errors rest))))"

text \<open>
  The connection (the database as committed, and as the open transaction sees
  it) and the two error counters of \<open>update_all_podcast_details\<close>.
\<close>

record writer =
  committed :: detail_db
  working :: detail_db
  update_errors :: nat
  category_link_errors :: nat

fun bind_all :: "json list \<Rightarrow> py_error + sqlv list" where
  "bind_all [] = Inr []"
| "bind_all (v # vs) =
     (case bind_param v of
        Inl e \<Rightarrow> Inl e
      | Inr x \<Rightarrow> (case bind_all vs of Inl e \<Rightarrow> Inl e | Inr xs \<Rightarrow> Inr (x # xs)))"

text \<open>
  \<open>INSERT OR REPLACE INTO Podcasts\<close> with its parameters bound.  The key
  column is \<open>INTEGER PRIMARY KEY\<close>: SQLite converts a text or real key that
  reads as an integer and refuses any other; the model refuses all keys that
  are not integers, and the properties below are about integer ids.
\<close>

definition execute_upsert_podcast ::
  "(statement \<Rightarrow> bool) \<Rightarrow> detail_db \<Rightarrow> json \<Rightarrow> json list \<Rightarrow> py_error + int \<times> detail_db" where
  "execute_upsert_podcast fails db feed_id columns =
     (case bind_param feed_id of
        Inl e \<Rightarrow> Inl e
      | Inr key \<Rightarrow>
          (case bind_all columns of
             Inl e \<Rightarrow> Inl e
           | Inr row \<Rightarrow>
               (case key of
                  SInt podcast_id \<Rightarrow>
                    if fails (UpsertPodcast podcast_id) then Inl SqliteError
                    else Inr (podcast_id, upsert_podcast db podcast_id row)
                | _ \<Rightarrow> Inl SqliteError)))"

text \<open>
  The handler of the outer \<open>try\<close> of the write block: \<open>update_errors += 1\<close> and
  \<open>conn.rollback()\<close>.
\<close>

definition database_error :: "writer \<Rightarrow> nat \<Rightarrow> writer" where
  "database_error st link_errors =
     st\<lparr>working := committed st,
        update_errors := update_errors st + 1,
        category_link_errors := link_errors\<rparr>"

text \<open>
  The write block for one podcast (the \<open>try\<close> around the upsert, the deletion
  of the links, the category loop and the commit).  The second component of the
  result is the exception that leaves the block, if one does: the block only
  catches the \<open>sqlite3.Error\<close> family.  A failed deletion is caught on its own;
  it sets \<open>del_success = False\<close>, which skips the categories, and the commit
  still follows.
\<close>

definition write_podcast ::
  "(statement \<Rightarrow> bool) \<Rightarrow> writer \<Rightarrow> json \<Rightarrow> json list \<Rightarrow> json \<Rightarrow> writer \<times> py_error option" where
  "write_podcast fails st feed_id columns categories_dict =
     (case execute_upsert_podcast fails (working st) feed_id columns of
        Inl SqliteError \<Rightarrow> (database_error st (category_link_errors st), None)
      | Inl e \<Rightarrow> (st, Some e)
      | Inr (podcast_id, db1) \<Rightarrow>
          (let (del_success, db2, errors2) =
                 (if fails (DeleteLinks podcast_id)
                  then (False, db1, category_link_errors st + 1)
                  else (True, delete_links db1 podcast_id, category_link_errors st));
               (db3, errors3, escaped) =
                 (case categories_dict of
                    JObj items \<Rightarrow>
                      if del_success \<and> items \<noteq> []
                      then insert_categories fails podcast_id db2 errors2 items
                      else (db2, errors2, None)
                  | _ \<Rightarrow> (db2, errors2, None))
           in case escaped of
                Some e \<Rightarrow> (st\<lparr>working := db3, category_link_errors := errors3\<rparr>, Some e)
              | None \<Rightarrow>
                  if fails Commit then (database_error st errors3, None)
                  else (st\<lparr>committed := db3, working := db3,
                           category_link_errors := errors3\<rparr>, None)))"

text \<open>
  The directory as the loop sees it: what each of its five requests returns.
\<close>

record directory_api =
  byterm :: "string \<Rightarrow> http_outcome"
  bytitle :: "string \<Rightarrow> http_outcome"
  byfeedid :: "json \<Rightarrow> http_outcome"
  byfeedurl :: "json \<Rightarrow> http_outcome"
  episodes_byfeedid :: "json \<Rightarrow> http_outcome"

definition int_option_json :: "int option \<Rightarrow> json" where
  "int_option_json v = (case v of None \<Rightarrow> JNull | Some i \<Rightarrow> JInt i)"

text \<open>
  The parameters of the upsert after the key, in the order of the statement,
  taken from \<open>full_details\<close>, the candidate and the episode statistics.
\<close>

definition podcast_columns :: "directory_api \<Rightarrow> pydict \<Rightarrow> pydict \<Rightarrow> json \<Rightarrow> json list" where
  "podcast_columns api candidate full_details feed_id =
     (let podcast_title = dict_get full_details ''title'';
          description = dict_get full_details ''description'';
          feed_url = dict_get full_details ''url'';
          original_url = dict_get full_details ''originalUrl'';
          image_url = py_or (dict_get full_details ''image'') (dict_get full_details ''artwork'');
          episode_count = dict_get full_details ''episodeCount'';
          last_update_time = dict_get full_details ''lastUpdateTime'';
          podcast_guid = dict_get full_details ''podcastGuid'';
          (avg_dur_10, latest_title) = get_latest_episode_info (episodes_byfeedid api feed_id);
          feed_url = (if \<not> truthy feed_url then dict_get candidate ''url'' else feed_url);
          original_url = (if \<not> truthy original_url then dict_get candidate ''originalUrl''
                          else original_url)
      in [podcast_title, description, feed_url, image_url, episode_count,
          int_option_json avg_dur_10, latest_title, last_update_time, podcast_guid,
          original_url])"

text \<open>
  One turn of the loop over the titles: search, fetch the details by id and
  else by URL, and write.  \<open>full_details.get\<close> raises AttributeError on details
  that are not a dictionary.  The second component of the result is the
  exception that leaves the loop body, if one does.
\<close>

definition process_title ::
  "(string \<Rightarrow> string \<Rightarrow> rat) \<Rightarrow> directory_api \<Rightarrow> (statement \<Rightarrow> bool) \<Rightarrow> writer \<Rightarrow> string \<Rightarrow>
   writer \<times> py_error option" where
  "process_title ratio api fails st title =
     (case search_podcast_combined ratio title (byterm api title) (bytitle api title) of
        None \<Rightarrow> (st, None)
      | Some candidate \<Rightarrow>
          (let candidate_feed_id = dict_get candidate ''id'';
               by_id = (if truthy candidate_feed_id
                        then get_full_podcast_details_by_feed_id (byfeedid api candidate_feed_id)
                        else None);
               feed_url_from_candidate =
                 py_or (dict_get candidate ''url'') (dict_get candidate ''originalUrl'');
               fetched =
                 (case by_id of
                    Some details \<Rightarrow> Inr (Some details)
                  | None \<Rightarrow>
                      if truthy feed_url_from_candidate
                      then get_full_podcast_details_by_feed_url feed_url_from_candidate
                             (byfeedurl api feed_url_from_candidate)
                      else Inr None)
           in case fetched of
                Inl e \<Rightarrow> (st, Some e)
              | Inr None \<Rightarrow> (st, None)
              | Inr (Some (JObj full_details)) \<Rightarrow>
                  (let feed_id = dict_get full_details ''id'' in
                   if \<not> truthy feed_id then (st, None)
                   else write_podcast fails st feed_id
                          (podcast_columns api candidate full_details feed_id)
                          (dict_get full_details ''categories''))
              | Inr (Some _) \<Rightarrow> (st, Some AttributeError)))"

text \<open>
  The loop.  An exception that leaves its body is caught outside the loop, and
  the remaining titles are not processed.
\<close>

fun process_titles ::
  "(string \<Rightarrow> string \<Rightarrow> rat) \<Rightarrow> directory_api \<Rightarrow> (statement \<Rightarrow> bool) \<Rightarrow> writer \<Rightarrow> string list \<Rightarrow>
   writer" where
  "process_titles ratio api fails st [] = st"
| "process_titles ratio api fails st (title # rest) =
     (case process_title ratio api fails st title of
        (st', None) \<Rightarrow> process_titles ratio api fails st' rest
      | (st', Some e) \<Rightarrow> st')"

text \<open>
  \<open>update_all_podcast_details\<close>: the two tables are dropped and created anew,
  the distinct titles of the chart table are read and processed, and the
  connection is closed, which discards a transaction left open.  The result is
  the database as committed and the two counters of the last log line.  A chart
  title that is not text finds no candidate, as \<open>strip\<close> raises inside the
  search, so only the text titles are listed.
\<close>

definition chart_titles :: "top100_table \<Rightarrow> string list" where
  "chart_titles tbl =
     remdups (concat (map (\<lambda>row. case col_title row of
                                    SText t \<Rightarrow> if t = [] then [] else [t]
                                  | _ \<Rightarrow> []) (rows tbl)))"

definition update_all_podcast_details ::
  "(string \<Rightarrow> string \<Rightarrow> rat) \<Rightarrow> directory_api \<Rightarrow> (statement \<Rightarrow> bool) \<Rightarrow> top100_table \<Rightarrow>
   detail_db \<Rightarrow> detail_db \<times> nat \<times> nat" where
  "update_all_podcast_details ratio api fails top100 db =
     (let fresh = db\<lparr>Podcasts := Map.empty, PodcastCategories := []\<rparr>;
          st = process_titles ratio api fails
                 \<lparr>committed = fresh, working = fresh, update_errors = 0,
                  category_link_errors = 0\<rparr>
                 (chart_titles top100)
      in (committed st, update_errors st, category_link_errors st))"

section \<open>Spreadsheet publisher\<close>

text \<open>
  Cells of a query result and of a worksheet.  The cleaning step of
  \<open>update_multiple_google_sheets\<close> replaces \<open>None\<close> and NaN by the empty string.
\<close>

datatype cell = CNone | CNaN | CInt int | CFloat rat | CText string

definition clean_cell :: "cell \<Rightarrow> cell" where
  "clean_cell c = (case c of CNone \<Rightarrow> CText [] | CNaN \<Rightarrow> CText [] | _ \<Rightarrow> c)"

text \<open>
  The exceptions the loop can meet, by the classes its handlers name.
  \<open>pandas.read_sql_query\<close> reports a failed query as its own \<open>DatabaseError\<close>,
  which is not of the \<open>sqlite3.Error\<close> family; \<open>NameError\<close> is what the
  interpreter raises for a name that is not bound.
\<close>

datatype sheet_exception =
    Sqlite3Error
  | WorksheetNotFound
  | GspreadAPIError
  | PandasDatabaseError
  | InvalidJSONError
  | NameError
  | AnyOtherException

text \<open>
  A configured pair (the keys \<open>query\<close> and \<open>worksheet_name\<close> of a
  dictionary of \<open>QUERY_CONFIGS\<close>), and the outside world of one run: the result of each
  query (column names and rows) or the exception it raises, and the exception,
  if any, that looking up, clearing or updating a worksheet raises.  The
  spreadsheet maps the names of its worksheets to their cells; a worksheet that
  does not exist is looked up with \<open>WorksheetNotFound\<close>.
\<close>

record query_config =
  cfg_query :: string
  cfg_worksheet_name :: string

record sheet_env =
  read_sql_query :: "string \<Rightarrow> sheet_exception + string list \<times> cell list list"
  worksheet_error :: "string \<Rightarrow> sheet_exception option"
  clear_error :: "string \<Rightarrow> sheet_exception option"
  update_error :: "string \<Rightarrow> sheet_exception option"

type_synonym spreadsheet = "string \<rightharpoonup> cell list list"

text \<open>
  The module imports \<open>sqlite3\<close>, \<open>gspread\<close>, \<open>pandas\<close>, \<open>os\<close>, \<open>logging\<close>,
  \<open>sys\<close>, \<open>math\<close> and \<open>datetime\<close>; it does not import \<open>requests\<close>.
\<close>

definition requests_is_imported :: bool where
  "requests_is_imported = False"

text \<open>
  The handlers of the inner \<open>try\<close>, tried in order: \<open>sqlite3.Error\<close>,
  \<open>gspread.exceptions.APIError\<close>, \<open>requests.exceptions.InvalidJSONError\<close>,
  \<open>Exception\<close>.  The first two log and let the loop go on (\<open>None\<close>).  Reaching
  the third evaluates the name \<open>requests\<close>, which raises NameError in place of
  the exception being handled; that one leaves the inner \<open>try\<close>.
\<close>

definition inner_handlers :: "sheet_exception \<Rightarrow> sheet_exception option" where
  "inner_handlers e =
     (if e = Sqlite3Error then None
      else if e = GspreadAPIError then None
      else if \<not> requests_is_imported then Some NameError
      else None)"

text \<open>
  One turn of the loop over \<open>query_configs\<close>: the spreadsheet after it, and the
  exception that leaves the inner \<open>try\<close>, if one does.  A worksheet that is not
  found is skipped by the innermost handler.
\<close>

definition header_and_rows :: "string list \<times> cell list list \<Rightarrow> cell list list" where
  "header_and_rows df = map CText (fst df) # map (map clean_cell) (snd df)"

definition process_config ::
  "sheet_env \<Rightarrow> spreadsheet \<Rightarrow> query_config \<Rightarrow> spreadsheet \<times> sheet_exception option" where
  "process_config env sheets config =
     (case read_sql_query env (cfg_query config) of
        Inl e \<Rightarrow> (sheets, inner_handlers e)
      | Inr df \<Rightarrow>
          (let data_to_write = header_and_rows df in
           case (if sheets (cfg_worksheet_name config) = None then Some WorksheetNotFound
                 else worksheet_error env (cfg_worksheet_name config)) of
             Some WorksheetNotFound \<Rightarrow> (sheets, None)
           | Some e \<Rightarrow> (sheets, inner_handlers e)
           | None \<Rightarrow>
               (case clear_error env (cfg_worksheet_name config) of
                  Some e \<Rightarrow> (sheets, inner_handlers e)
                | None \<Rightarrow>
                    (let cleared = sheets(cfg_worksheet_name config \<mapsto> []) in
                     case update_error env (cfg_worksheet_name config) of
                       Some e \<Rightarrow> (cleared, inner_handlers e)
                     | None \<Rightarrow> (sheets(cfg_worksheet_name config \<mapsto> data_to_write), None)))))"

text \<open>
  The loop.  An exception that leaves the inner \<open>try\<close> is caught by the handlers
  of the outer \<open>try\<close>, which are outside the loop: the remaining pairs are not
  processed.
\<close>

fun process_configs :: "sheet_env \<Rightarrow> spreadsheet \<Rightarrow> query_config list \<Rightarrow> spreadsheet" where
  "process_configs env sheets [] = sheets"
| "process_configs env sheets (config # rest) =
     (case process_config env sheets config of
        (sheets', None) \<Rightarrow> process_configs env sheets' rest
      | (sheets', Some e) \<Rightarrow> sheets')"

text \<open>
  \<open>update_multiple_google_sheets\<close>: \<open>setup_ok\<close> says whether the credentials
  load, the spreadsheet opens and the database connects.
\<close>

definition update_multiple_google_sheets ::
  "bool \<Rightarrow> sheet_env \<Rightarrow> spreadsheet \<Rightarrow> query_config list \<Rightarrow> spreadsheet" where
  "update_multiple_google_sheets setup_ok env sheets query_configs =
     (if setup_ok then process_configs env sheets query_configs else sheets)"

section \<open>Notions used to state the properties\<close>

text \<open>Shapes of decoded values, and the fields of a chart record.\<close>

definition is_obj :: "json \<Rightarrow> bool" where
  "is_obj v = (case v of JObj d \<Rightarrow> True | _ \<Rightarrow> False)"

definition is_arr :: "json \<Rightarrow> bool" where
  "is_arr v = (case v of JArr d \<Rightarrow> True | _ \<Rightarrow> False)"

definition spotify_item_ok :: "json \<Rightarrow> bool" where
  "spotify_item_ok x =
     (case x of
        JObj d \<Rightarrow> (case dict_get_default d ''showUri'' (JStr []) of
                    JStr s \<Rightarrow> True | JNull \<Rightarrow> True | _ \<Rightarrow> False)
      | _ \<Rightarrow> False)"

definition item_title :: "string \<Rightarrow> json \<Rightarrow> json" where
  "item_title key x = (case x of JObj d \<Rightarrow> dict_get d key | _ \<Rightarrow> JNull)"

definition title_of :: "pydict \<Rightarrow> json" where
  "title_of r = dict_get r ''title''"

definition fetch_failed :: "http_outcome \<Rightarrow> bool" where
  "fetch_failed r =
     (case r of
        Timeout \<Rightarrow> True
      | RequestFailed \<Rightarrow> True
      | Response status body \<Rightarrow> raise_for_status status \<or> body = None)"

definition apple_body_malformed :: "json \<Rightarrow> bool" where
  "apple_body_malformed body =
     (case body of
        JObj data \<Rightarrow>
          (case dict_get data ''feed'' of
             JObj feed_data \<Rightarrow> \<not> is_arr (dict_get feed_data ''results'')
           | _ \<Rightarrow> True)
      | _ \<Rightarrow> True)"

definition status_2xx :: "nat \<Rightarrow> bool" where
  "status_2xx status = (200 \<le> status \<and> status < 300)"

definition rank_of :: "pydict \<Rightarrow> json" where
  "rank_of r = dict_get r ''rank''"






text \<open>
  The uniqueness constraint of \<open>Top100Lists\<close> as a property of a table, the
  number of rows with a given key, and a record that carries that key.
\<close>

definition row_key :: "top100_row \<Rightarrow> sqlv \<times> sqlv \<times> sqlv" where
  "row_key row = (col_platform row, col_rank row, col_date row)"

definition unique_keys :: "top100_table \<Rightarrow> bool" where
  "unique_keys tbl = distinct (map row_key (rows tbl))"

definition count_key :: "top100_table \<Rightarrow> sqlv \<Rightarrow> sqlv \<Rightarrow> sqlv \<Rightarrow> nat" where
  "count_key tbl p r d = length (filter (same_key p r d) (rows tbl))"

definition record_with_key :: "pydict \<Rightarrow> string \<Rightarrow> int \<Rightarrow> string \<Rightarrow> bool" where
  "record_with_key r p k d =
     (map_of r ''platform'' = Some (JStr p) \<and> map_of r ''rank'' = Some (JInt k) \<and>
      map_of r ''date'' = Some (JStr d) \<and> in_int64 k \<and>
      bind_param (dict_get r ''title'') \<noteq> Inl SqliteError \<and>
      bind_param (dict_get r ''title'') \<noteq> Inl OverflowError \<and>
      bind_param (dict_get r ''platform_podcast_id'') \<noteq> Inl SqliteError \<and>
      bind_param (dict_get r ''platform_podcast_id'') \<noteq> Inl OverflowError)"

definition env_ok :: store_env where
  "env_ok = \<lparr>dir_exists = True, connect_ok = True\<rparr>"






definition byterm_candidates :: "http_outcome \<Rightarrow> json list" where
  "byterm_candidates r =
     (case response_json r of
        Inr (JObj data) \<Rightarrow>
          (case py_or (dict_get data ''feeds'') (dict_get_default data ''results'' (JArr [])) of
             JArr candidates \<Rightarrow> candidates
           | _ \<Rightarrow> [])
      | _ \<Rightarrow> [])"


text \<open>
  A run of the publisher over two configured views whose worksheets both exist,
  where the query of the first view fails (its view is missing, say) and
  nothing else does.
\<close>

definition two_views :: "query_config list" where
  "two_views =
     [\<lparr>cfg_query = ''SELECT * FROM vw_NewEntries'', cfg_worksheet_name = ''NewEntries''\<rparr>,
      \<lparr>cfg_query = ''SELECT * FROM vw_TimeOnList'', cfg_worksheet_name = ''TimeOnList''\<rparr>]"

definition first_query_fails :: sheet_env where
  "first_query_fails =
     \<lparr>read_sql_query =
        (\<lambda>q. if q = ''SELECT * FROM vw_NewEntries'' then Inl PandasDatabaseError
              else Inr ([''title''], [[CText ''A'']])),
      worksheet_error = (\<lambda>n. None),
      clear_error = (\<lambda>n. None),
      update_error = (\<lambda>n. None)\<rparr>"

definition old_sheets :: spreadsheet where
  "old_sheets =
     [''NewEntries'' \<mapsto> [[CText ''old'']], ''TimeOnList'' \<mapsto> [[CText ''old'']]]"















section \<open>Properties of the chart fetchers\<close>

lemma dict_get_Nil: "dict_get [] k = JNull"
  by (simp add: dict_get_def)

lemma dict_get_Cons: "dict_get ((k', v) # d) k = (if k = k' then v else dict_get d k)"
  by (simp add: dict_get_def)

lemmas dict_get_simps = dict_get_Nil dict_get_Cons

lemma apple_records_ranks:
  "list_all is_obj xs \<Longrightarrow>
   map rank_of (apple_records today i xs) = map (\<lambda>k. JInt (int k)) [Suc i ..< Suc (i + length xs)]"
proof (induction xs arbitrary: i)
  case Nil
  then show ?case by simp
next
  case (Cons x xs)
  then obtain d where x: "x = JObj d" by (auto simp: is_obj_def split: json.splits)
  have "[Suc i ..< Suc (i + length (x # xs))] = Suc i # [Suc (Suc i) ..< Suc (Suc i + length xs)]"
    using upt_conv_Cons[of "Suc i" "Suc (i + length (x # xs))"] by simp
  with Cons x show ?case by (simp add: dict_get_simps rank_of_def)
qed

lemma spotify_records_ranks:
  "spotify_records today i xs = Inr rs \<Longrightarrow> list_all is_obj xs \<Longrightarrow>
   map rank_of rs = map (\<lambda>k. JInt (int k)) [Suc i ..< Suc (i + length xs)]"
proof (induction xs arbitrary: i rs)
  case Nil
  then show ?case by simp
next
  case (Cons x xs)
  then obtain d where x: "x = JObj d" by (auto simp: is_obj_def split: json.splits)
  from Cons.prems x obtain p rs' where
    rs: "spotify_records today (Suc i) xs = Inr rs'"
        "rs = [(''platform'', JStr PLATFORM_NAME_SPOTIFY),
               (''rank'', JInt (int i + 1)),
               (''title'', dict_get d ''showName''),
               (''platform_podcast_id'', p),
               (''date'', JStr today)] # rs'"
    by (auto split: sum.splits)
  have "[Suc i ..< Suc (i + length (x # xs))] = Suc i # [Suc (Suc i) ..< Suc (Suc i + length xs)]"
    using upt_conv_Cons[of "Suc i" "Suc (i + length (x # xs))"] by simp
  with Cons.IH[OF rs(1)] Cons.prems(2) rs(2) show ?case
    by (simp add: dict_get_simps rank_of_def)
qed

lemma py_slice_to_nonneg: "0 \<le> k \<Longrightarrow> py_slice_to xs k = take (nat k) xs"
  by (simp add: py_slice_to_def)

lemma list_all_take: "list_all P xs \<Longrightarrow> list_all P (take n xs)"
  by (auto simp: list_all_iff dest: in_set_takeD)

lemma apple_records_titles:
  "list_all is_obj xs \<Longrightarrow>
   map title_of (apple_records today i xs) = map (item_title ''name'') xs"
  by (induction today i xs rule: apple_records.induct)
     (auto simp: is_obj_def dict_get_simps title_of_def item_title_def)

lemma spotify_item_ok_id:
  "spotify_item_ok (JObj d) \<Longrightarrow> \<exists>p. spotify_podcast_id d = Inr p"
  by (auto simp: spotify_item_ok_def spotify_podcast_id_def Let_def split: json.splits)

lemma spotify_records_ok:
  "list_all spotify_item_ok xs \<Longrightarrow> \<exists>rs. spotify_records today i xs = Inr rs"
proof (induction xs arbitrary: i)
  case Nil
  then show ?case by simp
next
  case (Cons x xs)
  then obtain d where x: "x = JObj d" by (auto simp: spotify_item_ok_def split: json.splits)
  with Cons.prems obtain p where "spotify_podcast_id d = Inr p"
    using spotify_item_ok_id by auto
  moreover from Cons obtain rs where "spotify_records today (Suc i) xs = Inr rs" by auto
  ultimately show ?case using x by simp
qed

lemma spotify_records_titles:
  "spotify_records today i xs = Inr rs \<Longrightarrow> list_all is_obj xs \<Longrightarrow>
   map title_of rs = map (item_title ''showName'') xs"
proof (induction xs arbitrary: i rs)
  case Nil
  then show ?case by simp
next
  case (Cons x xs)
  then obtain d where x: "x = JObj d" by (auto simp: is_obj_def split: json.splits)
  from Cons.prems x obtain p rs' where
    rs: "spotify_records today (Suc i) xs = Inr rs'"
        "rs = [(''platform'', JStr PLATFORM_NAME_SPOTIFY),
               (''rank'', JInt (int i + 1)),
               (''title'', dict_get d ''showName''),
               (''platform_podcast_id'', p),
               (''date'', JStr today)] # rs'"
    by (auto split: sum.splits)
  with Cons.IH[OF rs(1)] Cons.prems(2) x show ?case
    by (simp add: dict_get_simps title_of_def item_title_def)
qed

lemma spotify_item_ok_obj: "spotify_item_ok x \<Longrightarrow> is_obj x"
  by (auto simp: spotify_item_ok_def is_obj_def split: json.splits)

lemma split_last_nosep: "sep \<notin> set s \<Longrightarrow> split_last sep acc s = acc @ s"
  by (induction s arbitrary: acc) auto

lemma split_last_suffix:
  "sep \<notin> set suf \<Longrightarrow> split_last sep acc (pre @ sep # suf) = suf"
  by (induction pre arbitrary: acc) (auto simp: split_last_nosep)

lemma apple_scrape_ok:
  assumes "response_json r = Inr (JObj data)"
    and "dict_get data ''feed'' = JObj feed_data"
    and "dict_get feed_data ''results'' = JArr results"
    and "0 \<le> limit"
  shows "scrape_apple_top_podcasts today r limit = apple_records today 0 (take (nat limit) results)"
proof -
  have "feed_data \<noteq> []" using assms(3) by (auto simp: dict_get_def)
  with assms show ?thesis
    by (cases "results = []") (simp_all add: scrape_apple_top_podcasts_def py_slice_to_nonneg)
qed

lemma spotify_scrape_ok:
  assumes "response_json r = Inr (JArr items)"
    and "list_all spotify_item_ok items"
  shows "\<exists>rs. spotify_records today 0 (take 100 items) = Inr rs \<and> scrape_spotify_top100 today r = rs"
proof -
  have "list_all spotify_item_ok (take 100 items)" using assms(2) by (rule list_all_take)
  then obtain rs where "spotify_records today 0 (take 100 items) = Inr rs"
    using spotify_records_ok by blast
  with assms(1) show ?thesis
    by (simp add: scrape_spotify_top100_def py_slice_to_def)
qed

text \<open>
  Claim C7, as the code has it.  For a response with the expected structure whose
  items are all dictionaries, and a limit that is not negative, the ranks of the
  Apple records are \<open>1..min(len(results), limit)\<close> and their titles are the
  names of the first items, in the order of the response.  The Spotify fetcher
  has the fixed limit 100; its items must also carry a \<open>showUri\<close> that is a
  string, \<open>None\<close> or absent.
\<close>

theorem chart_ranks_in_response_order:
  "(response_json r = Inr (JObj data) \<and> dict_get data ''feed'' = JObj feed_data \<and>
    dict_get feed_data ''results'' = JArr results \<and> list_all is_obj results \<and> 0 \<le> limit
    \<longrightarrow>
      map rank_of (scrape_apple_top_podcasts today r limit) =
        map (\<lambda>k. JInt (int k)) [1 ..< Suc (min (length results) (nat limit))] \<and>
      map title_of (scrape_apple_top_podcasts today r limit) =
        map (item_title ''name'') (take (nat limit) results))
   \<and>
   (response_json r' = Inr (JArr items) \<and> list_all spotify_item_ok items
    \<longrightarrow>
      map rank_of (scrape_spotify_top100 today r') =
        map (\<lambda>k. JInt (int k)) [1 ..< Suc (min (length items) 100)] \<and>
      map title_of (scrape_spotify_top100 today r') =
        map (item_title ''showName'') (take 100 items))"
proof (intro conjI impI)
  assume a: "response_json r = Inr (JObj data) \<and> dict_get data ''feed'' = JObj feed_data \<and>
    dict_get feed_data ''results'' = JArr results \<and> list_all is_obj results \<and> 0 \<le> limit"
  then have eq: "scrape_apple_top_podcasts today r limit = apple_records today 0 (take (nat limit) results)"
    using apple_scrape_ok by blast
  have obj: "list_all is_obj (take (nat limit) results)"
    using a by (blast intro: list_all_take)
  show "map rank_of (scrape_apple_top_podcasts today r limit) =
        map (\<lambda>k. JInt (int k)) [1 ..< Suc (min (length results) (nat limit))]"
    using apple_records_ranks[OF obj, of today 0] eq by simp
  show "map title_of (scrape_apple_top_podcasts today r limit) =
        map (item_title ''name'') (take (nat limit) results)"
    using apple_records_titles[OF obj, of today 0] eq by simp
next
  assume a: "response_json r' = Inr (JArr items) \<and> list_all spotify_item_ok items"
  then obtain rs where rs: "spotify_records today 0 (take 100 items) = Inr rs"
      "scrape_spotify_top100 today r' = rs"
    using spotify_scrape_ok by blast
  have obj: "list_all is_obj (take 100 items)"
    using a by (auto simp: list_all_iff dest: in_set_takeD spotify_item_ok_obj)
  show "map rank_of (scrape_spotify_top100 today r') =
        map (\<lambda>k. JInt (int k)) [1 ..< Suc (min (length items) 100)]"
    using spotify_records_ranks[OF rs(1) obj] rs(2) by simp
  show "map title_of (scrape_spotify_top100 today r') =
        map (item_title ''showName'') (take 100 items)"
    using spotify_records_titles[OF rs(1) obj] rs(2) by simp
qed

text \<open>Three Apple items under limit 2, and two Spotify items.\<close>

theorem chart_ranks_witness:
  "map rank_of (scrape_apple_top_podcasts ''2024-01-01'' (Response 200 (Some (JObj [(''feed'', JObj [(''results'',
       JArr [JObj [(''name'', JStr ''A'')], JObj [(''name'', JStr ''B'')], JObj [(''name'', JStr ''C'')]])])]))) 2)
     = [JInt 1, JInt 2] \<and>
   map rank_of (scrape_spotify_top100 ''2024-01-01'' (Response 200 (Some (JArr
       [JObj [(''showName'', JStr ''A''), (''showUri'', JStr ''spotify:show:abc'')], JObj [(''showName'', JStr ''B'')]]))))
     = [JInt 1, JInt 2]"
  using chart_ranks_in_response_order[of
      "Response 200 (Some (JObj [(''feed'', JObj [(''results'',
         JArr [JObj [(''name'', JStr ''A'')], JObj [(''name'', JStr ''B'')], JObj [(''name'', JStr ''C'')]])])]))"
      "[(''feed'', JObj [(''results'',
         JArr [JObj [(''name'', JStr ''A'')], JObj [(''name'', JStr ''B'')], JObj [(''name'', JStr ''C'')]])])]"
      "[(''results'',
         JArr [JObj [(''name'', JStr ''A'')], JObj [(''name'', JStr ''B'')], JObj [(''name'', JStr ''C'')]])]"
      "[JObj [(''name'', JStr ''A'')], JObj [(''name'', JStr ''B'')], JObj [(''name'', JStr ''C'')]]"
      2
      "''2024-01-01''"
      "Response 200 (Some (JArr
       [JObj [(''showName'', JStr ''A''), (''showUri'', JStr ''spotify:show:abc'')], JObj [(''showName'', JStr ''B'')]]))"
      "[JObj [(''showName'', JStr ''A''), (''showUri'', JStr ''spotify:show:abc'')], JObj [(''showName'', JStr ''B'')]]"]
  by (simp add: response_json_def raise_for_status_def dict_get_def dict_get_default_def is_obj_def
        spotify_item_ok_def upt_rec)

text \<open>
  Claim C7 as stated speaks of every limit.  With the limit \<open>-1\<close> the slice
  \<open>results[:-1]\<close> keeps all items but the last, so two items give one record of
  rank 1, where \<open>1..min(2, -1)\<close> is empty.
\<close>

theorem chart_ranks_negative_limit_counterexample:
  "map rank_of (scrape_apple_top_podcasts ''2024-01-01'' (Response 200 (Some (JObj [(''feed'', JObj [(''results'',
       JArr [JObj [(''name'', JStr ''A'')], JObj [(''name'', JStr ''B'')]])])]))) (- 1))
     \<noteq> map JInt [1 .. min (int (length [JObj [(''name'', JStr ''A'')], JObj [(''name'', JStr ''B'')]])) (- 1)]"
  by (simp add: scrape_apple_top_podcasts_def response_json_def raise_for_status_def dict_get_def
        py_slice_to_def rank_of_def)

lemma fetch_failed_json: "fetch_failed r \<Longrightarrow> \<exists>e. response_json r = Inl e"
  by (cases r) (auto simp: fetch_failed_def response_json_def)

lemma apple_malformed_empty:
  "response_json r = Inr v \<Longrightarrow> apple_body_malformed v \<Longrightarrow>
   scrape_apple_top_podcasts today r limit = []"
  by (auto simp: apple_body_malformed_def scrape_apple_top_podcasts_def is_arr_def
           split: json.splits)

lemma spotify_malformed_empty:
  "response_json r = Inr v \<Longrightarrow> \<not> is_arr v \<Longrightarrow> scrape_spotify_top100 today r = []"
  by (auto simp: scrape_spotify_top100_def is_arr_def split: json.splits)

text \<open>
  Claim C8, as the code has it.  A timeout, a transport failure, a status code
  for which \<open>raise_for_status\<close> raises (400 to 599), a body that is not JSON, and
  a body without the expected structure (Apple: no \<open>feed\<close> dictionary or no
  \<open>results\<close> list in it; Spotify: not a list) all give the empty list.  So does
  an exception raised while the Spotify items are read: no shorter list of
  records is returned.
\<close>

theorem chart_fetch_failure_empty:
  "(fetch_failed r \<or> (\<exists>v. response_json r = Inr v \<and> apple_body_malformed v)
      \<longrightarrow> scrape_apple_top_podcasts today r limit = [])
   \<and>
   (fetch_failed r \<or> (\<exists>v. response_json r = Inr v \<and> \<not> is_arr v) \<or>
    (\<exists>items e. response_json r = Inr (JArr items) \<and>
        spotify_records today 0 (py_slice_to items 100) = Inl e)
      \<longrightarrow> scrape_spotify_top100 today r = [])"
proof (intro conjI impI)
  assume "fetch_failed r \<or> (\<exists>v. response_json r = Inr v \<and> apple_body_malformed v)"
  then show "scrape_apple_top_podcasts today r limit = []"
  proof
    assume "fetch_failed r"
    then obtain e where "response_json r = Inl e" using fetch_failed_json by blast
    then show ?thesis by (simp add: scrape_apple_top_podcasts_def)
  next
    assume "\<exists>v. response_json r = Inr v \<and> apple_body_malformed v"
    then show ?thesis using apple_malformed_empty by blast
  qed
next
  assume "fetch_failed r \<or> (\<exists>v. response_json r = Inr v \<and> \<not> is_arr v) \<or>
    (\<exists>items e. response_json r = Inr (JArr items) \<and>
        spotify_records today 0 (py_slice_to items 100) = Inl e)"
  then consider (a) "fetch_failed r" | (b) "\<exists>v. response_json r = Inr v \<and> \<not> is_arr v"
    | (c) "\<exists>items e. response_json r = Inr (JArr items) \<and>
        spotify_records today 0 (py_slice_to items 100) = Inl e"
    by blast
  then show "scrape_spotify_top100 today r = []"
  proof cases
    case a
    then obtain e where "response_json r = Inl e" using fetch_failed_json by blast
    then show ?thesis by (simp add: scrape_spotify_top100_def)
  next
    case b
    then show ?thesis using spotify_malformed_empty by blast
  next
    case c
    then show ?thesis by (auto simp: scrape_spotify_top100_def)
  qed
qed

text \<open>
  A 503 response, a timeout, a body that is not JSON, a feed without results,
  a transport failure, a Spotify body that is no list, and a Spotify item whose
  \<open>showUri\<close> is a number.
\<close>

theorem chart_fetch_failure_empty_witness:
  "scrape_apple_top_podcasts ''2024-01-01'' (Response 503 (Some (JObj [(''feed'', JObj [(''results'',
       JArr [JObj [(''name'', JStr ''A'')]])])]))) 100 = [] \<and>
   scrape_apple_top_podcasts ''2024-01-01'' Timeout 100 = [] \<and>
   scrape_apple_top_podcasts ''2024-01-01'' (Response 200 None) 100 = [] \<and>
   scrape_apple_top_podcasts ''2024-01-01''
     (Response 200 (Some (JObj [(''feed'', JObj [(''title'', JStr ''Top'')])]))) 100 = [] \<and>
   scrape_spotify_top100 ''2024-01-01'' RequestFailed = [] \<and>
   scrape_spotify_top100 ''2024-01-01''
     (Response 200 (Some (JObj [(''error'', JStr ''not found'')]))) = [] \<and>
   scrape_spotify_top100 ''2024-01-01'' (Response 200 (Some (JArr
       [JObj [(''showName'', JStr ''A'')], JObj [(''showName'', JStr ''B''), (''showUri'', JInt 5)]]))) = []"
  using chart_fetch_failure_empty[of
      "Response 503 (Some (JObj [(''feed'', JObj [(''results'', JArr [JObj [(''name'', JStr ''A'')]])])]))"
      "''2024-01-01''" 100]
    chart_fetch_failure_empty[of Timeout "''2024-01-01''" 100]
    chart_fetch_failure_empty[of "Response 200 None" "''2024-01-01''" 100]
    chart_fetch_failure_empty[of
      "Response 200 (Some (JObj [(''feed'', JObj [(''title'', JStr ''Top'')])]))" "''2024-01-01''" 100]
    chart_fetch_failure_empty[of RequestFailed "''2024-01-01''" 100]
    chart_fetch_failure_empty[of
      "Response 200 (Some (JObj [(''error'', JStr ''not found'')]))" "''2024-01-01''" 100]
    chart_fetch_failure_empty[of
      "Response 200 (Some (JArr
         [JObj [(''showName'', JStr ''A'')], JObj [(''showName'', JStr ''B''), (''showUri'', JInt 5)]]))"
      "''2024-01-01''" 100]
  by (simp add: fetch_failed_def raise_for_status_def response_json_def py_slice_to_def
        spotify_podcast_id_def dict_get_default_def apple_body_malformed_def dict_get_def
        is_arr_def)

text \<open>
  Claim C8 as stated speaks of every status outside 200 to 299.  The status 300
  is not one \<open>raise_for_status\<close> raises for, and a well-formed body that comes
  with it is read as usual.
\<close>

theorem chart_fetch_status_300_counterexample:
  "\<not> status_2xx 300 \<and>
   scrape_spotify_top100 ''2024-01-01''
     (Response 300 (Some (JArr [JObj [(''showName'', JStr ''A''), (''showUri'', JStr ''spotify:show:abc'')]])))
   \<noteq> []"
  by (simp add: status_2xx_def scrape_spotify_top100_def response_json_def raise_for_status_def
        py_slice_to_def spotify_podcast_id_def dict_get_default_def)

text \<open>
  Claim C10.  In the record produced for a Spotify item, \<open>platform_podcast_id\<close>
  is the part of \<open>showUri\<close> after its last colon; it is \<open>None\<close> when
  \<open>showUri\<close> is absent, \<open>None\<close>, empty or without a colon.
\<close>

theorem spotify_id_after_last_colon:
  assumes "spotify_records today i (JObj pod_data # rest) = Inr (record # records)"
  shows "(map_of pod_data ''showUri'' = Some (JStr (pre @ CHR '':'' # suf)) \<and> CHR '':'' \<notin> set suf
            \<longrightarrow> dict_get record ''platform_podcast_id'' = JStr suf)
       \<and> (map_of pod_data ''showUri'' = None
            \<longrightarrow> dict_get record ''platform_podcast_id'' = JNull)
       \<and> (map_of pod_data ''showUri'' = Some JNull
            \<longrightarrow> dict_get record ''platform_podcast_id'' = JNull)
       \<and> (map_of pod_data ''showUri'' = Some (JStr s) \<and> CHR '':'' \<notin> set s
            \<longrightarrow> dict_get record ''platform_podcast_id'' = JNull)"
proof -
  from assms obtain p where p: "spotify_podcast_id pod_data = Inr p"
    and r: "record = [(''platform'', JStr PLATFORM_NAME_SPOTIFY),
               (''rank'', JInt (int i + 1)),
               (''title'', dict_get pod_data ''showName''),
               (''platform_podcast_id'', p),
               (''date'', JStr today)]"
    by (auto split: sum.splits)
  have g: "dict_get record ''platform_podcast_id'' = p"
    using r by (simp add: dict_get_simps)
  show ?thesis
    using p unfolding g
    by (auto simp: spotify_podcast_id_def dict_get_default_def split_last_suffix
             split: if_splits)
qed

text \<open>
  The item with \<open>showUri = spotify:show:abc\<close> gets the id \<open>abc\<close>, the item
  without \<open>showUri\<close> and the item with \<open>showUri = abc\<close> get \<open>None\<close>.
\<close>

theorem spotify_id_after_last_colon_witness:
  "dict_get (hd (scrape_spotify_top100 ''2024-01-01''
      (Response 200 (Some (JArr [JObj [(''showName'', JStr ''A''), (''showUri'', JStr ''spotify:show:abc'')]])))))
     ''platform_podcast_id'' = JStr ''abc'' \<and>
   dict_get (hd (scrape_spotify_top100 ''2024-01-01''
      (Response 200 (Some (JArr [JObj [(''showName'', JStr ''B'')]])))))
     ''platform_podcast_id'' = JNull \<and>
   dict_get (hd (scrape_spotify_top100 ''2024-01-01''
      (Response 200 (Some (JArr [JObj [(''showName'', JStr ''C''), (''showUri'', JStr ''abc'')]])))))
     ''platform_podcast_id'' = JNull"
proof -
  let ?a = "[(''showName'', JStr ''A''), (''showUri'', JStr ''spotify:show:abc'')]"
  let ?b = "[(''showName'', JStr ''B'')]"
  let ?c = "[(''showName'', JStr ''C''), (''showUri'', JStr ''abc'')]"
  let ?rec = "\<lambda>name i. [(''platform'', JStr PLATFORM_NAME_SPOTIFY), (''rank'', JInt 1),
           (''title'', JStr name), (''platform_podcast_id'', i), (''date'', JStr ''2024-01-01'')]"
  have ra: "spotify_records ''2024-01-01'' 0 (JObj ?a # []) = Inr (?rec ''A'' (JStr ''abc'') # [])"
    by (simp add: spotify_podcast_id_def dict_get_default_def dict_get_simps)
  have rb: "spotify_records ''2024-01-01'' 0 (JObj ?b # []) = Inr (?rec ''B'' JNull # [])"
    by (simp add: spotify_podcast_id_def dict_get_default_def dict_get_simps)
  have rc: "spotify_records ''2024-01-01'' 0 (JObj ?c # []) = Inr (?rec ''C'' JNull # [])"
    by (simp add: spotify_podcast_id_def dict_get_default_def dict_get_simps)
  have sa: "scrape_spotify_top100 ''2024-01-01'' (Response 200 (Some (JArr [JObj ?a]))) =
              [?rec ''A'' (JStr ''abc'')]"
    using ra by (simp add: scrape_spotify_top100_def response_json_def raise_for_status_def
        py_slice_to_def)
  have sb: "scrape_spotify_top100 ''2024-01-01'' (Response 200 (Some (JArr [JObj ?b]))) =
              [?rec ''B'' JNull]"
    using rb by (simp add: scrape_spotify_top100_def response_json_def raise_for_status_def
        py_slice_to_def)
  have sc: "scrape_spotify_top100 ''2024-01-01'' (Response 200 (Some (JArr [JObj ?c]))) =
              [?rec ''C'' JNull]"
    using rc by (simp add: scrape_spotify_top100_def response_json_def raise_for_status_def
        py_slice_to_def)
  have "dict_get (?rec ''A'' (JStr ''abc'')) ''platform_podcast_id'' = JStr ''abc''"
    using spotify_id_after_last_colon[OF ra, of "''spotify:show''" "''abc''"] by simp
  moreover have "dict_get (?rec ''B'' JNull) ''platform_podcast_id'' = JNull"
    using spotify_id_after_last_colon[OF rb] by simp
  moreover have "dict_get (?rec ''C'' JNull) ''platform_podcast_id'' = JNull"
    using spotify_id_after_last_colon[OF rc, where s = "''abc''"] by simp
  ultimately show ?thesis unfolding sa sb sc by simp
qed

section \<open>Properties of the episode statistics\<close>








section \<open>Properties of the chart store\<close>

lemma same_key_row_key: "same_key p r d row = (row_key row = (p, r, d))"
  by (auto simp: same_key_def row_key_def)

lemma filter_key_absent:
  "\<not> list_ex (same_key p r d) rs \<Longrightarrow> filter (same_key p r d) rs = []"
  by (induction rs) (auto simp: list_ex_iff)

lemma count_key_present:
  "distinct (map row_key rs) \<Longrightarrow> list_ex (same_key p r d) rs \<Longrightarrow>
   length (filter (same_key p r d) rs) = 1"
proof (induction rs)
  case Nil
  then show ?case by simp
next
  case (Cons a rs)
  show ?case
  proof (cases "same_key p r d a")
    case True
    then have "(p, r, d) \<notin> set (map row_key rs)"
      using Cons.prems(1) by (simp add: same_key_row_key)
    then have "\<not> list_ex (same_key p r d) rs"
      by (force simp: list_ex_iff same_key_row_key)
    then show ?thesis using True by (simp add: filter_key_absent)
  next
    case False
    then show ?thesis using Cons by simp
  qed
qed

lemma bind_record_with_key:
  assumes "record_with_key r p k d"
  shows "has_required_keys r \<and> map_of r ''platform'' \<noteq> None \<and>
         (\<exists>t i. bind_record r = Inr (SText p, SInt k, t, i, SText d))"
proof -
  obtain t where t: "bind_param (dict_get r ''title'') = Inr t"
    using assms by (cases "bind_param (dict_get r ''title'')")
      (auto simp: record_with_key_def bind_param_def split: json.splits if_splits)
  obtain i where i: "bind_param (dict_get r ''platform_podcast_id'') = Inr i"
    using assms by (cases "bind_param (dict_get r ''platform_podcast_id'')")
      (auto simp: record_with_key_def bind_param_def split: json.splits if_splits)
  have "dict_get r ''platform'' = JStr p" "dict_get r ''rank'' = JInt k" "dict_get r ''date'' = JStr d"
    using assms by (simp_all add: record_with_key_def dict_get_def)
  moreover have "in_int64 k" using assms by (simp add: record_with_key_def)
  ultimately have "bind_record r = Inr (SText p, SInt k, t, i, SText d)"
    using t i by (simp add: bind_record_def bind_param_def)
  moreover have "has_required_keys r" "map_of r ''platform'' \<noteq> None"
    using assms by (simp_all add: record_with_key_def has_required_keys_def)
  ultimately show ?thesis by blast
qed

lemma save_one:
  assumes "has_required_keys r" "map_of r ''platform'' \<noteq> None" "bind_record r = Inr params"
    "insert_or_ignore_top100 tbl params = (tbl', c)"
  shows "save_chart_data_to_db env_ok tbl [r] = Inr (tbl', Some (if c > 0 then (1, 0) else (0, 1)))"
  using assms by (simp add: save_chart_data_to_db_def env_ok_def)

lemma save_two:
  assumes "has_required_keys r1" "map_of r1 ''platform'' \<noteq> None" "bind_record r1 = Inr params1"
    "insert_or_ignore_top100 tbl params1 = (tbl', c)"
    "has_required_keys r2" "bind_record r2 = Inr params2"
    "insert_or_ignore_top100 tbl' params2 = (tbl', 0)"
  shows "save_chart_data_to_db env_ok tbl [r1, r2] =
           Inr (tbl', Some (if c > 0 then (1, 1) else (0, 2)))"
  using assms by (simp add: save_chart_data_to_db_def env_ok_def)

lemma insert_absent:
  assumes "\<not> list_ex (same_key (SText p) (SInt k) (SText d)) (rows tbl)"
  shows "insert_or_ignore_top100 tbl (SText p, SInt k, t, i, SText d) =
           (tbl\<lparr>rows := rows tbl @
                     [\<lparr>row_id = Suc (seq tbl), col_platform = SText p, col_rank = SInt k, col_title = t,
                       col_platform_podcast_id = i, col_date = SText d\<rparr>],
                  seq := Suc (seq tbl)\<rparr>, 1)"
  using assms by (simp add: insert_or_ignore_top100_def)

lemma insert_present:
  assumes "list_ex (same_key p k d) (rows tbl)"
  shows "insert_or_ignore_top100 tbl (p, k, t, i, d) = (tbl, 0)"
  using assms by (simp add: insert_or_ignore_top100_def)

text \<open>
  Claim C6.  Two records with the same platform, rank and date, saved one after
  the other into a table that satisfies its uniqueness constraint, leave exactly
  one row with that key; the second attempt is counted as ignored, whether it
  comes in a second call or later in the same batch.  The functions of the two
  scraper scripts are the same, so the one model stands for both.
\<close>

theorem insert_same_key_twice:
  assumes r1: "record_with_key r1 p k d" and r2: "record_with_key r2 p k d"
    and u: "unique_keys tbl"
  shows "\<exists>tbl1 n. save_chart_data_to_db env_ok tbl [r1] = Inr (tbl1, Some n) \<and>
           save_chart_data_to_db env_ok tbl1 [r2] = Inr (tbl1, Some (0, 1)) \<and>
           save_chart_data_to_db env_ok tbl [r1, r2] = Inr (tbl1, Some (fst n, snd n + 1)) \<and>
           count_key tbl1 (SText p) (SInt k) (SText d) = 1 \<and> unique_keys tbl1"
proof -
  let ?P = "same_key (SText p) (SInt k) (SText d)"
  from bind_record_with_key[OF r1] obtain t1 i1 where
    b1: "has_required_keys r1" "map_of r1 ''platform'' \<noteq> None"
        "bind_record r1 = Inr (SText p, SInt k, t1, i1, SText d)" by blast
  from bind_record_with_key[OF r2] obtain t2 i2 where
    b2: "has_required_keys r2" "map_of r2 ''platform'' \<noteq> None"
        "bind_record r2 = Inr (SText p, SInt k, t2, i2, SText d)" by blast
  show ?thesis
  proof (cases "list_ex ?P (rows tbl)")
    case True
    have ins: "\<And>t i. insert_or_ignore_top100 tbl (SText p, SInt k, t, i, SText d) = (tbl, 0)"
      using True by (rule insert_present)
    have "save_chart_data_to_db env_ok tbl [r1] = Inr (tbl, Some (0, 1))"
      using save_one[OF b1 ins] by simp
    moreover have "save_chart_data_to_db env_ok tbl [r2] = Inr (tbl, Some (0, 1))"
      using save_one[OF b2 ins] by simp
    moreover have "save_chart_data_to_db env_ok tbl [r1, r2] = Inr (tbl, Some (0, 2))"
      using save_two[OF b1 ins b2(1,3) ins] by simp
    moreover have "count_key tbl (SText p) (SInt k) (SText d) = 1"
      using u True by (simp add: count_key_def unique_keys_def count_key_present)
    ultimately show ?thesis using u by auto
  next
    case False
    let ?row = "\<lparr>row_id = Suc (seq tbl), col_platform = SText p, col_rank = SInt k, col_title = t1,
                       col_platform_podcast_id = i1, col_date = SText d\<rparr>"
    let ?tbl1 = "tbl\<lparr>rows := rows tbl @ [?row], seq := Suc (seq tbl)\<rparr>"
    have ins1: "insert_or_ignore_top100 tbl (SText p, SInt k, t1, i1, SText d) = (?tbl1, 1)"
      using False by (rule insert_absent)
    have ex: "list_ex ?P (rows ?tbl1)" by (simp add: same_key_def)
    have ins2: "insert_or_ignore_top100 ?tbl1 (SText p, SInt k, t2, i2, SText d) = (?tbl1, 0)"
      using ex by (rule insert_present)
    have "save_chart_data_to_db env_ok tbl [r1] = Inr (?tbl1, Some (1, 0))"
      using save_one[OF b1 ins1] by simp
    moreover have "save_chart_data_to_db env_ok ?tbl1 [r2] = Inr (?tbl1, Some (0, 1))"
      using save_one[OF b2 ins2] by simp
    moreover have "save_chart_data_to_db env_ok tbl [r1, r2] = Inr (?tbl1, Some (1, 1))"
      using save_two[OF b1 ins1 b2(1,3) ins2] by simp
    moreover have "row_key ?row = (SText p, SInt k, SText d)" by (simp add: row_key_def)
    then have "row_key ?row \<notin> set (map row_key (rows tbl))"
      using False by (force simp: list_ex_iff same_key_row_key)
    then have u1: "unique_keys ?tbl1" using u by (simp add: unique_keys_def)
    moreover have "count_key ?tbl1 (SText p) (SInt k) (SText d) = 1"
      using u1 ex by (simp only: count_key_def unique_keys_def count_key_present)
    ultimately show ?thesis by auto
  qed
qed

text \<open>The same Apple entry of rank 1 saved twice into an empty table, with two titles.\<close>

theorem insert_same_key_twice_witness:
  "\<exists>tbl1 n.
     save_chart_data_to_db env_ok \<lparr>rows = [], seq = 0\<rparr>
       [[(''platform'', JStr ''Apple''), (''rank'', JInt 1), (''title'', JStr ''A''),
         (''platform_podcast_id'', JStr ''11''), (''date'', JStr ''2024-01-01'')]] = Inr (tbl1, Some n) \<and>
     save_chart_data_to_db env_ok tbl1
       [[(''platform'', JStr ''Apple''), (''rank'', JInt 1), (''title'', JStr ''B''),
         (''platform_podcast_id'', JNull), (''date'', JStr ''2024-01-01'')]] = Inr (tbl1, Some (0, 1)) \<and>
     save_chart_data_to_db env_ok \<lparr>rows = [], seq = 0\<rparr>
       [[(''platform'', JStr ''Apple''), (''rank'', JInt 1), (''title'', JStr ''A''),
         (''platform_podcast_id'', JStr ''11''), (''date'', JStr ''2024-01-01'')],
        [(''platform'', JStr ''Apple''), (''rank'', JInt 1), (''title'', JStr ''B''),
         (''platform_podcast_id'', JNull), (''date'', JStr ''2024-01-01'')]] =
       Inr (tbl1, Some (fst n, snd n + 1)) \<and>
     count_key tbl1 (SText ''Apple'') (SInt 1) (SText ''2024-01-01'') = 1 \<and> unique_keys tbl1"
  using insert_same_key_twice[of
      "[(''platform'', JStr ''Apple''), (''rank'', JInt 1), (''title'', JStr ''A''),
        (''platform_podcast_id'', JStr ''11''), (''date'', JStr ''2024-01-01'')]"
      "''Apple''" 1 "''2024-01-01''"
      "[(''platform'', JStr ''Apple''), (''rank'', JInt 1), (''title'', JStr ''B''),
        (''platform_podcast_id'', JNull), (''date'', JStr ''2024-01-01'')]"
      "\<lparr>rows = [], seq = 0\<rparr>"]
  by (simp add: record_with_key_def unique_keys_def bind_param_def dict_get_def in_int64_def)

section \<open>Properties of the title resolver\<close>







lemma byterm_candidates_nonempty:
  assumes "byterm_candidates r = cs" and "cs \<noteq> []"
  shows "\<exists>data. response_json r = Inr (JObj data) \<and>
           py_or (dict_get data ''feeds'') (dict_get_default data ''results'' (JArr [])) = JArr cs"
  using assms by (auto simp: byterm_candidates_def split: sum.splits json.splits)








section \<open>Properties of the spreadsheet publisher\<close>

text \<open>
  Claim C9 does not hold of the code.  The inner \<open>try\<close> ends with
  \<open>except Exception\<close>, so the loop is meant to go on after any failure of
  a tab; but the handler before it names \<open>requests\<close>, which the module
  never imports.  An exception that is neither of the \<open>sqlite3.Error\<close> family
  nor a \<open>gspread\<close> APIError, such as the \<open>DatabaseError\<close> that pandas raises
  for a failed query, therefore ends in NameError, which the handlers outside
  the loop catch.  Here the first of two views fails that way: the worksheet of
  the second view keeps its old cells, although the second view alone would
  have been written.
\<close>

theorem query_error_stops_later_tabs:
  "update_multiple_google_sheets True first_query_fails old_sheets two_views ''TimeOnList'' =
     Some [[CText ''old'']] \<and>
   update_multiple_google_sheets True first_query_fails old_sheets (tl two_views) ''TimeOnList'' =
     Some [[CText ''title''], [CText ''A'']]"
  by (simp add: update_multiple_google_sheets_def two_views_def first_query_fails_def
        old_sheets_def process_config_def inner_handlers_def requests_is_imported_def
        header_and_rows_def clean_cell_def)

text \<open>
  What the handlers do isolate: a worksheet that is missing, an error of the
  \<open>sqlite3.Error\<close> family and a \<open>gspread\<close> APIError leave the loop running.
\<close>

lemma process_config_isolated:
  assumes "process_config env sheets config = (sheets', Some e)"
  shows "e = NameError"
  using assms
  by (auto simp: process_config_def inner_handlers_def Let_def
           split: sum.splits option.splits sheet_exception.splits if_splits)

lemma missing_worksheet_skipped:
  assumes "read_sql_query env (cfg_query config) = Inr df"
    and "sheets (cfg_worksheet_name config) = None"
  shows "process_configs env sheets (config # rest) = process_configs env sheets rest"
  using assms by (simp add: process_config_def)

lemma api_error_skipped:
  assumes "read_sql_query env (cfg_query config) = Inr df"
    and "sheets (cfg_worksheet_name config) = Some cells"
    and "worksheet_error env (cfg_worksheet_name config) = None"
    and "clear_error env (cfg_worksheet_name config) = Some GspreadAPIError"
  shows "process_configs env sheets (config # rest) = process_configs env sheets rest"
  using assms by (simp add: process_config_def inner_handlers_def)

section \<open>Properties of the detail store writer\<close>




















end
